theory Spec2Isabelle
  imports Complex_Main "HOL-Library.Product_Lexorder"
begin

section \<open>Data model of \<^verbatim>\<open>src/Data/make_data.py\<close>\<close>

text \<open>
  A timestamp of pandas (\<^verbatim>\<open>Timestamp\<close>) written as (year, month, day, nanosecond
  of the day); the lexicographic order of these tuples is the order in time.
\<close>

type_synonym timestamp = "int \<times> int \<times> int \<times> int"

text \<open>
  The value of a cell: a JSON scalar as it arrives in the \<^verbatim>\<open>properties\<close> object
  of a feature, a parsed date (\<open>None\<close> is \<^verbatim>\<open>NaT\<close>), or \<open>NaN\<close> for a
  cell that pandas fills in because a row has no value for the column.
\<close>

datatype val = Null | Bool bool | Num real | Str string | Time "timestamp option" | NaN

text \<open>
  The exceptions the three functions can end with. The source has no \<^verbatim>\<open>raise\<close> and
  no \<^verbatim>\<open>try\<close>: every failure is an exception of a library call that is left to
  propagate. \<open>TransportError\<close> and \<open>DecodeError\<close> stand for what
  \<^verbatim>\<open>requests.get\<close> and \<^verbatim>\<open>response.json()\<close> raise; \<open>KeyError\<close> (with
  the labels that were not found), \<open>ValueError\<close>, \<open>IndexError\<close> and
  \<open>AttributeError\<close> are Python's built-in classes, raised by pandas.
  \<open>NoEligibleStation\<close> is the named error of the specification; no statement of the
  source raises it.
\<close>

datatype error =
  TransportError | DecodeError | KeyError "string list" | ValueError | IndexError
  | AttributeError | NoEligibleStation

text \<open>A Python \<^verbatim>\<open>datetime.date\<close>.\<close>

record date =
  year :: int
  month :: int
  day :: int

text \<open>
  \<^verbatim>\<open>Timestamp(date_)\<close>: inside \<^verbatim>\<open>DataFrame.query\<close>, pandas converts a scalar that
  is compared with a datetime column into a \<^verbatim>\<open>Timestamp\<close>; a date becomes midnight of
  that day.
\<close>

definition Timestamp :: "date \<Rightarrow> timestamp" where
  "Timestamp d = (year d, month d, day d, 0)"

text \<open>
  Comparison of a datetime column with a scalar, row by row: a comparison with
  \<^verbatim>\<open>NaT\<close> is False.
\<close>

fun col_lt :: "timestamp option \<Rightarrow> timestamp \<Rightarrow> bool" where
  "col_lt None t = False"
| "col_lt (Some a) t = (a < t)"

fun col_gt :: "timestamp option \<Rightarrow> timestamp \<Rightarrow> bool" where
  "col_gt None t = False"
| "col_gt (Some a) t = (a > t)"

text \<open>
  One row of the station catalog: the columns the code names, and the remaining
  properties of the feature. The type parameter is the type of the four date columns:
  the raw JSON value before \<^verbatim>\<open>pd.to_datetime\<close>, a \<open>timestamp option\<close> after it.
  A catalog (a \<^verbatim>\<open>DataFrame\<close> with a \<^verbatim>\<open>RangeIndex\<close>) is the list of its rows; the
  label of a row is its position.
\<close>

record 'd station =
  STN_ID :: val
  STATION_NAME :: val
  CLIMATE_IDENTIFIER :: val
  LATITUDE :: real
  LONGITUDE :: real
  FIRST_DATE :: 'd
  LAST_DATE :: 'd
  DLY_FIRST_DATE :: 'd
  DLY_LAST_DATE :: 'd
  OTHER_PROPERTIES :: "(string \<times> val) list"

text \<open>A row of the catalog after \<^verbatim>\<open>assign(DISTANCE_WEATHER_STATION_KM=distances)\<close>.\<close>

record 'd dstation = "'d station" +
  DISTANCE_WEATHER_STATION_KM :: real

type_synonym catalog = "timestamp option station list"

section \<open>\<^verbatim>\<open>closest_weather_station\<close>\<close>

text \<open>
  \<^verbatim>\<open>weather_stations.query("FIRST_DATE < @date_ and LAST_DATE > @date_")\<close>: the rows
  for which the expression is True, in the order of the frame.
  \<^verbatim>\<open>reset_index(drop=True)\<close> relabels them 0, 1, ...: the positions of the list.
\<close>

definition query_dates :: "date \<Rightarrow> catalog \<Rightarrow> catalog" where
  "query_dates date' weather_stations =
     filter (\<lambda>x. col_lt (FIRST_DATE x) (Timestamp date') \<and> col_gt (LAST_DATE x) (Timestamp date'))
       weather_stations"

text \<open>
  \<^verbatim>\<open>distance.distance(p, q).km\<close> of geopy (the geodesic distance, in kilometres)
  is the parameter \<open>km\<close>. The call raises \<^verbatim>\<open>ValueError\<close> for a point whose
  latitude is outside [-90, 90] or whose coordinates are not finite, so its result is
  an error or a number; the floating-point number is read as a real.
\<close>

type_synonym distance_km = "real \<times> real \<Rightarrow> real \<times> real \<Rightarrow> error + real"

text \<open>
  Calling a function on the rows of a frame, in order: the first exception ends the
  pass and is the result.
\<close>

fun apply_rows :: "('a \<Rightarrow> error + 'b) \<Rightarrow> 'a list \<Rightarrow> error + 'b list" where
  "apply_rows f [] = Inr []"
| "apply_rows f (x # xs) =
     (case f x of
        Inl e \<Rightarrow> Inl e
      | Inr y \<Rightarrow> (case apply_rows f xs of Inl e \<Rightarrow> Inl e | Inr ys \<Rightarrow> Inr (y # ys)))"

text \<open>
  The lambda of the source on every row:
  \<^verbatim>\<open>lambda x: distance.distance((latitude, longitude), (x["LATITUDE"],
  x["LONGITUDE"])).km\<close>.
\<close>

definition distances_of ::
  "distance_km \<Rightarrow> real \<Rightarrow> real \<Rightarrow> catalog \<Rightarrow> error + real list" where
  "distances_of km latitude longitude weather_stations =
     apply_rows (\<lambda>x. km (latitude, longitude) (LATITUDE x, LONGITUDE x)) weather_stations"

definition assign_distance :: "'d station \<Rightarrow> real \<Rightarrow> 'd dstation" where
  "assign_distance x d = station.extend x (dstation.fields d)"

text \<open>
  The pandas objects the function handles: a frame of stations, a column of numbers
  (a \<^verbatim>\<open>Series\<close>), a frame of stations with their distances.
\<close>

datatype obj =
  Frame catalog | Column "real list" | DistFrame "timestamp option dstation list"

text \<open>
  \<^verbatim>\<open>weather_stations.apply(..., axis=1)\<close>. On a frame with rows the result is the
  column of the lambda's values, or the lambda's exception. On a frame without rows
  pandas has no row to call the lambda on and returns a copy of the frame.
\<close>

definition apply_distance ::
  "distance_km \<Rightarrow> real \<Rightarrow> real \<Rightarrow> catalog \<Rightarrow> error + obj" where
  "apply_distance km latitude longitude weather_stations =
     (if weather_stations = [] then Inr (Frame weather_stations)
      else case distances_of km latitude longitude weather_stations of
             Inl e \<Rightarrow> Inl e
           | Inr distances \<Rightarrow> Inr (Column distances))"

text \<open>
  \<^verbatim>\<open>weather_stations.assign(DISTANCE_WEATHER_STATION_KM=distances)\<close>: a column is
  added to the rows; a frame is refused as the value of one column, with
  \<^verbatim>\<open>ValueError\<close>.
\<close>

definition assign_column ::
  "catalog \<Rightarrow> obj \<Rightarrow> error + timestamp option dstation list" where
  "assign_column weather_stations distances =
     (case distances of
        Column ds \<Rightarrow> Inr (map2 assign_distance weather_stations ds)
      | _ \<Rightarrow> Inl ValueError)"

text \<open>
  \<^verbatim>\<open>Series.idxmin()\<close>: the label of the first occurrence of the minimum, found in one
  pass that replaces the best position only by a strictly smaller value; on an empty
  column, \<^verbatim>\<open>ValueError\<close> (argmin of an empty sequence).
\<close>

fun argmin_scan :: "real list \<Rightarrow> nat \<Rightarrow> nat \<Rightarrow> real \<Rightarrow> nat" where
  "argmin_scan [] i best bv = best"
| "argmin_scan (x # xs) i best bv =
     (if x < bv then argmin_scan xs (Suc i) i x else argmin_scan xs (Suc i) best bv)"

definition idxmin :: "real list \<Rightarrow> error + nat" where
  "idxmin xs = (case xs of [] \<Rightarrow> Inl ValueError | x # rest \<Rightarrow> Inr (argmin_scan rest 1 0 x))"

text \<open>\<^verbatim>\<open>frame.iloc[i]\<close> for a position \<open>i \<ge> 0\<close>: \<^verbatim>\<open>IndexError\<close> out of range.\<close>

definition iloc :: "'a list \<Rightarrow> nat \<Rightarrow> error + 'a" where
  "iloc xs i = (if i < length xs then Inr (xs ! i) else Inl IndexError)"

text \<open>
  The function, statement by statement. The source has no branch for a filtered frame
  without rows and none for a distance that cannot be computed: in both cases the
  exception of the library call ends the function. (For the frame without rows, a
  version of pandas whose \<^verbatim>\<open>apply\<close> returns an empty column instead of a copy of the
  frame ends in the \<^verbatim>\<open>ValueError\<close> of \<^verbatim>\<open>idxmin\<close>.)
\<close>

definition closest_weather_station ::
  "distance_km \<Rightarrow> real \<Rightarrow> real \<Rightarrow> date \<Rightarrow> catalog \<Rightarrow> error + timestamp option dstation" where
  "closest_weather_station km latitude longitude date' weather_stations =
     (let weather_stations1 = query_dates date' weather_stations in
      case apply_distance km latitude longitude weather_stations1 of
        Inl e \<Rightarrow> Inl e
      | Inr distances \<Rightarrow>
          (case assign_column weather_stations1 distances of
             Inl e \<Rightarrow> Inl e
           | Inr weather_stations2 \<Rightarrow>
               (case idxmin (map DISTANCE_WEATHER_STATION_KM weather_stations2) of
                  Inl e \<Rightarrow> Inl e
                | Inr i \<Rightarrow> iloc weather_stations2 i)))"

subsection \<open>The call on a store of objects\<close>

text \<open>
  Python passes the caller's frame by reference. To say what a call does to it, the
  objects live in a store (an object's address is its position), names hold
  addresses, and every operation returns the store it leaves behind together with its
  result or its exception.
\<close>

type_synonym store = "obj list"

definition new :: "obj \<Rightarrow> store \<Rightarrow> (error + nat) \<times> store" where
  "new ob h = (Inr (length h), h @ [ob])"

definition deref :: "store \<Rightarrow> nat \<Rightarrow> obj option" where
  "deref h a = (if a < length h then Some (h ! a) else None)"

text \<open>Sequencing: an exception ends the call with the store as it is.\<close>

definition and_then ::
  "(error + 'a) \<times> store \<Rightarrow> ('a \<Rightarrow> store \<Rightarrow> (error + 'b) \<times> store) \<Rightarrow> (error + 'b) \<times> store" where
  "and_then m f = (case m of (Inl e, h) \<Rightarrow> (Inl e, h) | (Inr a, h) \<Rightarrow> f a h)"

text \<open>
  The pandas methods the function calls, none of them the \<^verbatim>\<open>inplace\<close> one: each
  reads its arguments and builds a new object, or raises. \<^verbatim>\<open>frame.query(...)\<close> and
  \<^verbatim>\<open>frame.reset_index(drop=True)\<close> return a new frame; \<^verbatim>\<open>frame.apply(..., axis=1)\<close>
  returns a new column, or a copy of the frame when the frame has no rows;
  \<^verbatim>\<open>frame.assign(DISTANCE_WEATHER_STATION_KM=distances)\<close> returns a new frame with the
  column added. A method called on an object of another class raises
  \<^verbatim>\<open>AttributeError\<close>.
\<close>

definition query_store :: "date \<Rightarrow> nat \<Rightarrow> store \<Rightarrow> (error + nat) \<times> store" where
  "query_store date' a h =
     (case deref h a of
        Some (Frame ws) \<Rightarrow> new (Frame (query_dates date' ws)) h
      | _ \<Rightarrow> (Inl AttributeError, h))"

definition reset_index_store :: "nat \<Rightarrow> store \<Rightarrow> (error + nat) \<times> store" where
  "reset_index_store a h =
     (case deref h a of
        Some (Frame ws) \<Rightarrow> new (Frame ws) h
      | _ \<Rightarrow> (Inl AttributeError, h))"

definition apply_store ::
  "distance_km \<Rightarrow> real \<Rightarrow> real \<Rightarrow> nat \<Rightarrow> store \<Rightarrow> (error + nat) \<times> store" where
  "apply_store km latitude longitude a h =
     (case deref h a of
        Some (Frame ws) \<Rightarrow>
          (case apply_distance km latitude longitude ws of
             Inl e \<Rightarrow> (Inl e, h)
           | Inr ob \<Rightarrow> new ob h)
      | _ \<Rightarrow> (Inl AttributeError, h))"

definition assign_store :: "nat \<Rightarrow> nat \<Rightarrow> store \<Rightarrow> (error + nat) \<times> store" where
  "assign_store a distances h =
     (case deref h a of
        Some (Frame ws) \<Rightarrow>
          (case deref h distances of
             Some ob \<Rightarrow>
               (case assign_column ws ob of
                  Inl e \<Rightarrow> (Inl e, h)
                | Inr rows \<Rightarrow> new (DistFrame rows) h)
           | None \<Rightarrow> (Inl AttributeError, h))
      | _ \<Rightarrow> (Inl AttributeError, h))"

text \<open>
  \<^verbatim>\<open>weather_stations.iloc[weather_stations["DISTANCE_WEATHER_STATION_KM"].idxmin()]
  .to_dict()\<close>: the chosen row, as a value.
\<close>

definition iloc_idxmin_store ::
  "nat \<Rightarrow> store \<Rightarrow> (error + timestamp option dstation) \<times> store" where
  "iloc_idxmin_store a h =
     (case deref h a of
        Some (DistFrame rows) \<Rightarrow>
          (case idxmin (map DISTANCE_WEATHER_STATION_KM rows) of
             Inl e \<Rightarrow> (Inl e, h)
           | Inr i \<Rightarrow> (iloc rows i, h))
      | _ \<Rightarrow> (Inl AttributeError, h))"

text \<open>
  The function on the store; the argument \<open>weather_stations\<close> is the address of the
  caller's frame, and the local names are bound to the addresses of the new objects.
\<close>

definition closest_weather_station_store ::
  "distance_km \<Rightarrow> real \<Rightarrow> real \<Rightarrow> date \<Rightarrow> nat \<Rightarrow> store
     \<Rightarrow> (error + timestamp option dstation) \<times> store" where
  "closest_weather_station_store km latitude longitude date' weather_stations h =
     and_then (query_store date' weather_stations h) (\<lambda>queried h1.
     and_then (reset_index_store queried h1) (\<lambda>weather_stations1 h2.
     and_then (apply_store km latitude longitude weather_stations1 h2) (\<lambda>distances h3.
     and_then (assign_store weather_stations1 distances h3) (\<lambda>weather_stations2 h4.
     iloc_idxmin_store weather_stations2 h4))))"

section \<open>\<^verbatim>\<open>scrape_weather_stations\<close>\<close>

text \<open>
  The query parameters of one request to \<^verbatim>\<open>/collections/climate-stations/items\<close>:
  the dictionary \<^verbatim>\<open>{"f": "json", "ENG_PROV_NAME": province, "startindex": 1}\<close>
  (the key \<^verbatim>\<open>f\<close> is the field \<open>f_format\<close>).
\<close>

record station_params =
  f_format :: string
  ENG_PROV_NAME :: string
  startindex :: int

text \<open>
  The remote endpoint is a parameter \<open>get\<close>: what
  \<^verbatim>\<open>[row["properties"] for row in requests.get(query_url, params).json()["features"]]\<close>
  evaluates to for given parameters, \<open>Inl\<close> when the request or the decoding of the
  response raises. The requests a call issues are returned in a log, in order.
\<close>

type_synonym 'r endpoint = "station_params \<Rightarrow> error + 'r list"

text \<open>
  The argument \<^verbatim>\<open>provinces: Union[str, List[str]]\<close>.
\<close>

datatype provinces = One string | Several "string list"

text \<open>
  The \<^verbatim>\<open>while True\<close> loop of one province. It need not end (an endpoint can answer
  every request with a full page), so it is a partial function: \<open>None\<close> is a loop
  that runs forever.
\<close>

partial_function (option) page_loop ::
  "'r endpoint \<Rightarrow> station_params \<Rightarrow> 'r list \<Rightarrow> station_params list
     \<Rightarrow> (station_params list \<times> (error + 'r list)) option" where
  "page_loop get params all_weather_stations requests =
     (case get params of
        Inl e \<Rightarrow> Some (requests @ [params], Inl e)
      | Inr weather_stations \<Rightarrow>
          if length weather_stations = 500
          then page_loop get (params\<lparr>startindex := startindex params + 500\<rparr>)
                 (all_weather_stations @ weather_stations) (requests @ [params])
          else Some (requests @ [params], Inr (all_weather_stations @ weather_stations)))"

text \<open>The \<^verbatim>\<open>for province in provinces\<close> loop.\<close>

fun province_loop ::
  "'r endpoint \<Rightarrow> string list \<Rightarrow> 'r list \<Rightarrow> station_params list
     \<Rightarrow> (station_params list \<times> (error + 'r list)) option" where
  "province_loop get [] all_weather_stations requests = Some (requests, Inr all_weather_stations)"
| "province_loop get (province # rest) all_weather_stations requests =
     (case page_loop get \<lparr>f_format = ''json'', ENG_PROV_NAME = province, startindex = 1\<rparr>
             all_weather_stations requests of
        None \<Rightarrow> None
      | Some (requests', Inl e) \<Rightarrow> Some (requests', Inl e)
      | Some (requests', Inr all_weather_stations') \<Rightarrow>
          province_loop get rest all_weather_stations' requests')"

text \<open>
  The float literal \<^verbatim>\<open>10e6\<close> is ten times ten to the sixth. The division is the
  floating-point one in the source and the exact one here.
\<close>

definition lit_10e6 :: real where
  "lit_10e6 = 10 * 10 ^ 6"

text \<open>
  \<^verbatim>\<open>all_weather_stations.assign(LONGITUDE=..., LATITUDE=..., DLY_FIRST_DATE=...,
  DLY_LAST_DATE=..., FIRST_DATE=..., LAST_DATE=...)\<close>, with \<^verbatim>\<open>pd.to_datetime\<close> as the
  parameter \<open>to_datetime\<close>. When no request returned a record, the concatenated frame
  has no column at all and the first lambda, \<^verbatim>\<open>x["LONGITUDE"]\<close>, raises
  \<^verbatim>\<open>KeyError\<close>. Otherwise every row gets its six new values (\<open>fix_row\<close>).
\<close>

definition fix_row :: "('d \<Rightarrow> timestamp option) \<Rightarrow> 'd station \<Rightarrow> timestamp option station" where
  "fix_row to_datetime x =
     \<lparr>STN_ID = STN_ID x, STATION_NAME = STATION_NAME x,
      CLIMATE_IDENTIFIER = CLIMATE_IDENTIFIER x,
      LATITUDE = LATITUDE x / lit_10e6, LONGITUDE = LONGITUDE x / lit_10e6,
      FIRST_DATE = to_datetime (FIRST_DATE x), LAST_DATE = to_datetime (LAST_DATE x),
      DLY_FIRST_DATE = to_datetime (DLY_FIRST_DATE x),
      DLY_LAST_DATE = to_datetime (DLY_LAST_DATE x),
      OTHER_PROPERTIES = OTHER_PROPERTIES x\<rparr>"

definition fix_column_types ::
  "('d \<Rightarrow> timestamp option) \<Rightarrow> 'd station list \<Rightarrow> error + catalog" where
  "fix_column_types to_datetime all_weather_stations =
     (if all_weather_stations = [] then Inl (KeyError [''LONGITUDE''])
      else Inr (map (fix_row to_datetime) all_weather_stations))"

definition scrape_weather_stations ::
  "'d station endpoint \<Rightarrow> ('d \<Rightarrow> timestamp option) \<Rightarrow> provinces
     \<Rightarrow> (station_params list \<times> (error + catalog)) option" where
  "scrape_weather_stations get to_datetime provinces =
     (let provinces1 = (case provinces of One s \<Rightarrow> [s] | Several l \<Rightarrow> l) in
      case province_loop get provinces1 [] [] of
        None \<Rightarrow> None
      | Some (requests, Inl e) \<Rightarrow> Some (requests, Inl e)
      | Some (requests, Inr all_weather_stations) \<Rightarrow>
          Some (requests, fix_column_types to_datetime all_weather_stations))"

text \<open>
  A synthetic endpoint that holds the records \<open>recs\<close> of every province and serves
  them in pages of at most 500, record number \<open>startindex\<close> first (the first record
  has number 1, the start index of the first request).
\<close>

definition synthetic_endpoint :: "'r list \<Rightarrow> 'r endpoint" where
  "synthetic_endpoint recs params = Inr (take 500 (drop (nat (startindex params - 1)) recs))"

text \<open>
  Two notions used to state what a run of the loops does: the parameters of the
  request number \<open>k\<close> (from 0) of a province, whose start index is 1 + 500 k, and
  the records of the pages that an endpoint returns for a list of requests, in order.
\<close>

definition params_at :: "string \<Rightarrow> nat \<Rightarrow> station_params" where
  "params_at province k =
     \<lparr>f_format = ''json'', ENG_PROV_NAME = province, startindex = 1 + 500 * int k\<rparr>"

definition pages_of :: "'r endpoint \<Rightarrow> station_params list \<Rightarrow> 'r list" where
  "pages_of get reqs =
     concat (map (\<lambda>p. case get p of Inl e \<Rightarrow> [] | Inr page \<Rightarrow> page) reqs)"

section \<open>\<^verbatim>\<open>weather_data\<close>\<close>

text \<open>
  A decoded JSON object (a Python \<^verbatim>\<open>dict\<close>): its items in insertion order; a
  lookup takes the first item with the key. A frame of observations: the column labels
  and, for every row, one cell per column.
\<close>

type_synonym props = "(string \<times> val) list"

record frame =
  columns :: "string list"
  cells :: "val list list"

text \<open>
  \<^verbatim>\<open>pd.DataFrame(list_of_dicts)\<close>: the columns are the keys of all rows, each once,
  in the order in which they are first seen; a row without a key has \<open>NaN\<close> there.
\<close>

definition first_seen :: "'a list \<Rightarrow> 'a list" where
  "first_seen xs = fold (\<lambda>x seen. if x \<in> set seen then seen else seen @ [x]) xs []"

definition cell_of :: "props \<Rightarrow> string \<Rightarrow> val" where
  "cell_of d c = (case map_of d c of None \<Rightarrow> NaN | Some v \<Rightarrow> v)"

definition DataFrame :: "props list \<Rightarrow> frame" where
  "DataFrame ds =
     (let cols = first_seen (concat (map (map fst) ds))
      in \<lparr>columns = cols, cells = map (\<lambda>d. map (cell_of d) cols) ds\<rparr>)"

text \<open>
  \<^verbatim>\<open>frame[labels]\<close> with a list of labels: the named columns in the order of the
  list; \<^verbatim>\<open>KeyError\<close> when a label is not a column.
\<close>

definition select_columns :: "string list \<Rightarrow> frame \<Rightarrow> error + frame" where
  "select_columns labels fr =
     (case filter (\<lambda>l. l \<notin> set (columns fr)) labels of
        [] \<Rightarrow> Inr \<lparr>columns = labels,
                   cells = map (\<lambda>r. map (cell_of (zip (columns fr) r)) labels) (cells fr)\<rparr>
      | m # ms \<Rightarrow> Inl (KeyError (m # ms)))"

text \<open>
  \<^verbatim>\<open>frame.drop(labels, axis=1)\<close>: \<^verbatim>\<open>KeyError\<close> when a label is not a column,
  otherwise the frame without the named columns.
\<close>

definition drop_columns :: "string list \<Rightarrow> frame \<Rightarrow> error + frame" where
  "drop_columns labels fr =
     (case filter (\<lambda>l. l \<notin> set (columns fr)) labels of
        [] \<Rightarrow> Inr \<lparr>columns = filter (\<lambda>c. c \<notin> set labels) (columns fr),
                   cells = map (\<lambda>r. map snd (filter (\<lambda>cv. fst cv \<notin> set labels)
                                                 (zip (columns fr) r))) (cells fr)\<rparr>
      | m # ms \<Rightarrow> Inl (KeyError (m # ms)))"

text \<open>
  \<^verbatim>\<open>frame.insert(loc, column, value)\<close> with a scalar value: \<^verbatim>\<open>ValueError\<close> when the
  column exists already, \<^verbatim>\<open>IndexError\<close> when \<open>loc\<close> is beyond the number of
  columns; otherwise the column stands at position \<open>loc\<close> with the value in every
  row. The source's frame is changed in place; here the new frame is returned.
\<close>

definition insert_column :: "nat \<Rightarrow> string \<Rightarrow> val \<Rightarrow> frame \<Rightarrow> error + frame" where
  "insert_column loc column v fr =
     (if column \<in> set (columns fr) then Inl ValueError
      else if loc > length (columns fr) then Inl IndexError
      else Inr \<lparr>columns = take loc (columns fr) @ [column] @ drop loc (columns fr),
                cells = map (\<lambda>r. take loc r @ [v] @ drop loc r) (cells fr)\<rparr>)"

text \<open>
  \<^verbatim>\<open>d[k] = v\<close> on a dictionary: the value of an existing key is replaced where it
  stands, a new key is added at the end. \<^verbatim>\<open>assign\<close> sets a column of a frame in
  the same way.
\<close>

fun setitem :: "string \<Rightarrow> val \<Rightarrow> props \<Rightarrow> props" where
  "setitem k v [] = [(k, v)]"
| "setitem k v (p # ps) = (if fst p = k then (k, v) # ps else p # setitem k v ps)"

text \<open>
  \<^verbatim>\<open>closest_station\<close> is the dictionary \<^verbatim>\<open>.to_dict()\<close> of the chosen row: one item
  per column of the catalog, with the distance as \<^verbatim>\<open>assign\<close> has set it.
\<close>

definition to_dict :: "timestamp option dstation \<Rightarrow> props" where
  "to_dict x =
     setitem ''DISTANCE_WEATHER_STATION_KM'' (Num (DISTANCE_WEATHER_STATION_KM x))
       ([(''STN_ID'', STN_ID x), (''STATION_NAME'', STATION_NAME x),
         (''CLIMATE_IDENTIFIER'', CLIMATE_IDENTIFIER x),
         (''LATITUDE'', Num (LATITUDE x)), (''LONGITUDE'', Num (LONGITUDE x)),
         (''FIRST_DATE'', Time (FIRST_DATE x)), (''LAST_DATE'', Time (LAST_DATE x)),
         (''DLY_FIRST_DATE'', Time (DLY_FIRST_DATE x)),
         (''DLY_LAST_DATE'', Time (DLY_LAST_DATE x))]
        @ OTHER_PROPERTIES x)"

text \<open>
  The query parameters of the request to \<^verbatim>\<open>/collections/climate-daily/items\<close>, and
  the function. The observation endpoint is the parameter \<open>get_daily\<close>:
  \<^verbatim>\<open>weather_list\<close> for given parameters, or \<open>Inl\<close> when the request or the
  decoding raises.
\<close>

definition daily_params :: "timestamp option dstation \<Rightarrow> date \<Rightarrow> props" where
  "daily_params closest_station date' =
     [(''f'', Str ''json''),
      (''CLIMATE_IDENTIFIER'', CLIMATE_IDENTIFIER closest_station),
      (''LOCAL_DAY'', Num (of_int (day date'))),
      (''LOCAL_MONTH'', Num (of_int (month date'))),
      (''LOCAL_YEAR'', Num (of_int (year date')))]"

definition weather_data ::
  "(props \<Rightarrow> error + props list) \<Rightarrow> distance_km
     \<Rightarrow> real \<Rightarrow> real \<Rightarrow> date \<Rightarrow> catalog \<Rightarrow> error + frame" where
  "weather_data get_daily km latitude longitude date' weather_stations =
     (case closest_weather_station km latitude longitude date' weather_stations of
        Inl e \<Rightarrow> Inl e
      | Inr closest_station \<Rightarrow>
          (case get_daily (daily_params closest_station date') of
             Inl e \<Rightarrow> Inl e
           | Inr weather_list \<Rightarrow>
               if length weather_list = 0
               then select_columns
                      [''STATION_NAME'', ''STN_ID'', ''CLIMATE_IDENTIFIER'',
                       ''DISTANCE_WEATHER_STATION_KM'']
                      (DataFrame [to_dict closest_station])
               else
                 (case drop_columns
                         [''LOCAL_DATE'', ''LOCAL_DAY'', ''LOCAL_MONTH'', ''LOCAL_YEAR'',
                          ''ID'', ''PROVINCE_CODE'']
                         (DataFrame weather_list) of
                    Inl e \<Rightarrow> Inl e
                  | Inr weather \<Rightarrow>
                      (case insert_column 1 ''DISTANCE_WEATHER_STATION_KM''
                              (Num (DISTANCE_WEATHER_STATION_KM closest_station)) weather of
                         Inl e \<Rightarrow> Inl e
                       | Inr weather1 \<Rightarrow>
                           insert_column 1 ''STN_ID'' (STN_ID closest_station) weather1))))"

section \<open>Fixtures\<close>

text \<open>
  Concrete inputs on which the theorems below are instantiated: a station with given
  name, position and overall date range, a stand-in for the geodesic distance that
  raises \<^verbatim>\<open>ValueError\<close> for a latitude outside [-90, 90] as geopy does, and a
  query date.
\<close>

definition station_at ::
  "string \<Rightarrow> real \<Rightarrow> real \<Rightarrow> 'd \<Rightarrow> 'd \<Rightarrow> 'd station" where
  "station_at name lat lon first_date last_date =
     \<lparr>STN_ID = Num 1, STATION_NAME = Str name, CLIMATE_IDENTIFIER = Str name,
      LATITUDE = lat, LONGITUDE = lon, FIRST_DATE = first_date, LAST_DATE = last_date,
      DLY_FIRST_DATE = first_date, DLY_LAST_DATE = last_date, OTHER_PROPERTIES = []\<rparr>"

definition grid_km :: distance_km where
  "grid_km p q =
     (if \<bar>fst p\<bar> \<le> 90 \<and> \<bar>fst q\<bar> \<le> 90
      then Inr (\<bar>fst p - fst q\<bar> + \<bar>snd p - snd q\<bar>)
      else Inl ValueError)"

definition midsummer :: date where
  "midsummer = \<lparr>year = 2020, month = 6, day = 21\<rparr>"

text \<open>
  Five stations: \<open>A\<close> at distance 3 from the origin, \<open>B\<close> at distance 1 whose
  first date is the query date itself, \<open>C\<close> and \<open>D\<close> both at distance 2, and
  \<open>E\<close> at distance 1/2 whose last date is the query date.
\<close>

definition example_catalog :: catalog where
  "example_catalog =
     [station_at ''A'' 3 0 (Some (2000, 1, 1, 0)) (Some (2030, 1, 1, 0)),
      station_at ''B'' 1 0 (Some (2020, 6, 21, 0)) (Some (2030, 1, 1, 0)),
      station_at ''C'' 2 0 (Some (2000, 1, 1, 0)) (Some (2030, 1, 1, 0)),
      station_at ''D'' 0 2 (Some (2000, 1, 1, 0)) (Some (2030, 1, 1, 0)),
      station_at ''E'' 0 (1 / 2) (Some (2000, 1, 1, 0)) (Some (2020, 6, 21, 0))]"

text \<open>
  Two observation endpoints: one that has no row for any query, and one that answers
  every query with one row of eight properties.
\<close>

definition no_observation :: "props \<Rightarrow> error + props list" where
  "no_observation params = Inr []"

definition one_observation :: "props \<Rightarrow> error + props list" where
  "one_observation params =
     Inr [[(''STATION_NAME'', Str ''C''), (''LOCAL_DATE'', Str ''2020-06-21 00:00:00''),
           (''LOCAL_DAY'', Num 21), (''LOCAL_MONTH'', Num 6), (''LOCAL_YEAR'', Num 2020),
           (''ID'', Str ''C.2020.6.21''), (''PROVINCE_CODE'', Str ''ON''),
           (''MEAN_TEMPERATURE'', Num 19)]]"

text \<open>
  A raw station record with its coordinates in units of 1/10,000,000 degree and its
  dates as text, a parser for the two dates that occur, and an endpoint whose first
  page is full and whose second request fails.
\<close>

definition raw_example :: "string station" where
  "raw_example = station_at ''X'' 485200000 (- 1234500000) ''2000-01-01'' ''2030-01-01''"

definition iso_date :: "string \<Rightarrow> timestamp option" where
  "iso_date s =
     (if s = ''2000-01-01'' then Some (2000, 1, 1, 0)
      else if s = ''2030-01-01'' then Some (2030, 1, 1, 0)
      else None)"

definition failing_endpoint :: "string station endpoint" where
  "failing_endpoint params =
     (if startindex params = 1 then Inr (replicate 500 raw_example) else Inl TransportError)"

section \<open>Properties of \<^verbatim>\<open>closest_weather_station\<close>\<close>

lemma argmin_scan_spec:
  assumes "best < i" and "\<forall>j<best. bv < ys ! j" and "\<forall>j<i. bv \<le> ys ! j"
    and "ys ! best = bv" and "length ys = i + length xs" and "drop i ys = xs"
  shows "argmin_scan xs i best bv < length ys
     \<and> (\<forall>j<length ys. ys ! argmin_scan xs i best bv \<le> ys ! j)
     \<and> (\<forall>j<argmin_scan xs i best bv. ys ! argmin_scan xs i best bv < ys ! j)"
  using assms
proof (induction xs arbitrary: i best bv)
  case Nil
  then show ?case by simp
next
  case (Cons x xs)
  have xi: "ys ! i = x"
    using Cons.prems(5,6)
    by (metis Cons_nth_drop_Suc less_add_same_cancel1 list.inject zero_less_Suc length_Cons)
  have dr: "drop (Suc i) ys = xs"
    using Cons.prems(6) by (metis drop_Suc tl_drop list.sel(3))
  have len: "length ys = Suc i + length xs"
    using Cons.prems(5) by simp
  show ?case
  proof (cases "x < bv")
    case True
    have a: "\<forall>j<i. x < ys ! j"
      using True Cons.prems(3) by fastforce
    have b: "\<forall>j<Suc i. x \<le> ys ! j"
      using a xi by (auto simp: less_Suc_eq)
    from Cons.IH [of i "Suc i" x, OF _ a b xi len dr] True
    show ?thesis by simp
  next
    case False
    have b: "\<forall>j<Suc i. bv \<le> ys ! j"
      using False Cons.prems(3) xi by (auto simp: less_Suc_eq)
    have lt: "best < Suc i"
      using Cons.prems(1) by simp
    from Cons.IH [of best "Suc i" bv, OF lt Cons.prems(2) b Cons.prems(4) len dr] False
    show ?thesis by simp
  qed
qed

lemma idxmin_first_minimum:
  assumes "ys \<noteq> []"
  shows "\<exists>i<length ys. idxmin ys = Inr i \<and> (\<forall>j<length ys. ys ! i \<le> ys ! j) \<and> (\<forall>j<i. ys ! i < ys ! j)"
proof -
  obtain y rest where ys: "ys = y # rest"
    using assms by (cases ys) auto
  have "argmin_scan rest 1 0 y < length ys
     \<and> (\<forall>j<length ys. ys ! argmin_scan rest 1 0 y \<le> ys ! j)
     \<and> (\<forall>j<argmin_scan rest 1 0 y. ys ! argmin_scan rest 1 0 y < ys ! j)"
    by (rule argmin_scan_spec) (simp_all add: ys)
  then show ?thesis
    by (simp add: idxmin_def ys)
qed

lemma map_distance_assign:
  "length ds = length rows \<Longrightarrow>
     map DISTANCE_WEATHER_STATION_KM (map2 assign_distance rows ds) = ds"
  by (induction rows ds rule: list_induct2')
     (simp_all add: assign_distance_def station.defs dstation.defs)

lemma apply_rows_Inr:
  "\<forall>x\<in>set xs. f x = Inr (g x) \<Longrightarrow> apply_rows f xs = Inr (map g xs)"
  by (induction xs) simp_all

lemma apply_rows_InrD:
  "apply_rows f xs = Inr ys \<Longrightarrow>
     length ys = length xs \<and> (\<forall>i<length xs. f (xs ! i) = Inr (ys ! i))"
proof (induction xs arbitrary: ys)
  case Nil
  then show ?case by simp
next
  case (Cons x xs)
  from Cons.prems obtain y ys' where y: "f x = Inr y" "apply_rows f xs = Inr ys'" "ys = y # ys'"
    by (auto split: sum.splits)
  from Cons.IH [OF y(2)] y(1,3) show ?case
    by (auto simp: nth_Cons split: nat.splits)
qed

lemma closest_weather_station_eq:
  assumes "query_dates date' ws \<noteq> []"
    and "distances_of km lat lon (query_dates date' ws) = Inr ds"
  shows "\<exists>i<length (query_dates date' ws).
     closest_weather_station km lat lon date' ws =
       Inr (assign_distance (query_dates date' ws ! i) (ds ! i))
     \<and> (\<forall>j<length (query_dates date' ws). ds ! i \<le> ds ! j)
     \<and> (\<forall>j<i. ds ! i < ds ! j)"
proof -
  define E where "E = query_dates date' ws"
  have len: "length ds = length E"
    using apply_rows_InrD [OF assms(2) [unfolded distances_of_def]] by (simp add: E_def)
  have ne: "ds \<noteq> []"
    using assms(1) len by (auto simp: E_def)
  obtain i where i: "i < length ds" "idxmin ds = Inr i"
    "\<forall>j<length ds. ds ! i \<le> ds ! j" "\<forall>j<i. ds ! i < ds ! j"
    using idxmin_first_minimum [OF ne] by blast
  have "closest_weather_station km lat lon date' ws = iloc (map2 assign_distance E ds) i"
    using assms i(2) map_distance_assign [OF len]
    by (simp add: closest_weather_station_def apply_distance_def assign_column_def Let_def
        E_def [symmetric] del: map_map)
  also have "\<dots> = Inr (assign_distance (E ! i) (ds ! i))"
    using i(1) len by (simp add: iloc_def)
  finally show ?thesis
    using i len unfolding E_def by auto
qed

lemma closest_weather_station_empty:
  "query_dates date' ws = [] \<Longrightarrow> closest_weather_station km lat lon date' ws = Inl ValueError"
  by (simp add: closest_weather_station_def apply_distance_def assign_column_def)

lemma closest_weather_station_raises:
  "query_dates date' ws \<noteq> [] \<Longrightarrow> distances_of km lat lon (query_dates date' ws) = Inl e \<Longrightarrow>
     closest_weather_station km lat lon date' ws = Inl e"
  by (simp add: closest_weather_station_def apply_distance_def)

lemma in_range_iff:
  "(col_lt (FIRST_DATE x) t \<and> col_gt (LAST_DATE x) t)
     = (\<exists>a b. FIRST_DATE x = Some a \<and> LAST_DATE x = Some b \<and> a < t \<and> t < b)"
  by (cases "FIRST_DATE x"; cases "LAST_DATE x") simp_all

lemma query_dates_filter:
  "query_dates date' ws =
     filter (\<lambda>x. \<exists>a b. FIRST_DATE x = Some a \<and> LAST_DATE x = Some b
                    \<and> a < Timestamp date' \<and> Timestamp date' < b) ws"
  unfolding query_dates_def by (simp add: in_range_iff)

lemma query_dates_member:
  "x \<in> set (query_dates date' ws) \<longleftrightarrow>
     x \<in> set ws \<and> (\<exists>a b. FIRST_DATE x = Some a \<and> LAST_DATE x = Some b
        \<and> a < Timestamp date' \<and> Timestamp date' < b)"
proof (cases "FIRST_DATE x")
  case None
  then show ?thesis by (simp add: query_dates_def)
next
  case (Some a)
  then show ?thesis by (cases "LAST_DATE x") (auto simp: query_dates_def)
qed

lemma query_dates_example:
  "query_dates midsummer example_catalog =
     [station_at ''A'' 3 0 (Some (2000, 1, 1, 0)) (Some (2030, 1, 1, 0)),
      station_at ''C'' 2 0 (Some (2000, 1, 1, 0)) (Some (2030, 1, 1, 0)),
      station_at ''D'' 0 2 (Some (2000, 1, 1, 0)) (Some (2030, 1, 1, 0))]"
  by (simp add: query_dates_def example_catalog_def station_at_def midsummer_def Timestamp_def)

lemma truncate_assign_distance: "station.truncate (assign_distance x d) = x"
  by (simp add: assign_distance_def station.defs dstation.defs)

lemma distance_assign_distance: "DISTANCE_WEATHER_STATION_KM (assign_distance x d) = d"
  by (simp add: assign_distance_def station.defs dstation.defs)

lemma closest_example:
  "closest_weather_station grid_km 0 0 midsummer example_catalog
     = Inr (assign_distance
              (station_at ''C'' 2 0 (Some (2000, 1, 1, 0)) (Some (2030, 1, 1, 0))) 2)"
  by (simp add: closest_weather_station_def query_dates_example apply_distance_def
      assign_column_def distances_of_def idxmin_def iloc_def grid_km_def station_at_def
      distance_assign_distance)

text \<open>
  C1, as the code has it. When some station's date range strictly contains the query
  date and the distance to the query point is computed for every such station (the
  call of geopy raises for none of them), the resolver returns a row of the filtered
  catalog together with its distance to the query point; that distance is the least of
  all filtered rows, and every filtered row before the returned one is strictly
  farther away, so of several nearest rows the first in catalog order is returned. The
  filtered catalog is the sublist of the stations with first date < query date < last
  date.
\<close>

theorem closest_weather_station_nearest_eligible:
  assumes "query_dates date' ws \<noteq> []"
    and "\<forall>x\<in>set (query_dates date' ws).
           km (lat, lon) (LATITUDE x, LONGITUDE x) = Inr (dkm x)"
  shows "query_dates date' ws =
           filter (\<lambda>x. \<exists>a b. FIRST_DATE x = Some a \<and> LAST_DATE x = Some b
                          \<and> a < Timestamp date' \<and> Timestamp date' < b) ws
     \<and> (\<exists>i<length (query_dates date' ws). \<exists>r.
           closest_weather_station km lat lon date' ws = Inr r
         \<and> station.truncate r = query_dates date' ws ! i
         \<and> DISTANCE_WEATHER_STATION_KM r = dkm (query_dates date' ws ! i)
         \<and> (\<forall>j<length (query_dates date' ws).
               dkm (query_dates date' ws ! i) \<le> dkm (query_dates date' ws ! j))
         \<and> (\<forall>j<i. dkm (query_dates date' ws ! i) < dkm (query_dates date' ws ! j)))"
proof
  show "query_dates date' ws =
           filter (\<lambda>x. \<exists>a b. FIRST_DATE x = Some a \<and> LAST_DATE x = Some b
                          \<and> a < Timestamp date' \<and> Timestamp date' < b) ws"
    by (rule query_dates_filter)
next
  let ?E = "query_dates date' ws"
  have ds: "distances_of km lat lon ?E = Inr (map dkm ?E)"
    unfolding distances_of_def using assms(2) by (rule apply_rows_Inr)
  obtain i where i: "i < length ?E"
    "closest_weather_station km lat lon date' ws
       = Inr (assign_distance (?E ! i) (map dkm ?E ! i))"
    "\<forall>j<length ?E. map dkm ?E ! i \<le> map dkm ?E ! j"
    "\<forall>j<i. map dkm ?E ! i < map dkm ?E ! j"
    using closest_weather_station_eq [OF assms(1) ds] by blast
  show "\<exists>i<length ?E. \<exists>r.
           closest_weather_station km lat lon date' ws = Inr r
         \<and> station.truncate r = ?E ! i
         \<and> DISTANCE_WEATHER_STATION_KM r = dkm (?E ! i)
         \<and> (\<forall>j<length ?E. dkm (?E ! i) \<le> dkm (?E ! j))
         \<and> (\<forall>j<i. dkm (?E ! i) < dkm (?E ! j))"
  proof (intro exI conjI allI impI)
    show "i < length ?E" by (rule i(1))
    show "closest_weather_station km lat lon date' ws
        = Inr (assign_distance (?E ! i) (map dkm ?E ! i))" by (rule i(2))
    show "station.truncate (assign_distance (?E ! i) (map dkm ?E ! i)) = ?E ! i"
      by (rule truncate_assign_distance)
    show "DISTANCE_WEATHER_STATION_KM (assign_distance (?E ! i) (map dkm ?E ! i))
        = dkm (?E ! i)"
      using i(1) by (simp add: distance_assign_distance)
  next
    fix j assume j: "j < length ?E"
    from i(3) [rule_format, OF j] i(1) j
    show "dkm (?E ! i) \<le> dkm (?E ! j)"
      by simp
  next
    fix j assume j: "j < i"
    then have jl: "j < length ?E"
      using i(1) by simp
    from i(4) [rule_format, OF j] i(1) jl
    show "dkm (?E ! i) < dkm (?E ! j)"
      by simp
  qed
qed

text \<open>
  On the example catalog, from the origin: every distance is computed, the boundary
  stations \<open>B\<close> and \<open>E\<close>, the nearest of all, are left out, and of the two
  stations at distance 2 the earlier one, \<open>C\<close>, is returned.
\<close>

theorem closest_weather_station_nearest_eligible_witness:
  "query_dates midsummer example_catalog \<noteq> []
   \<and> grid_km (0, 0) (3, 0) = Inr 3
   \<and> grid_km (0, 0) (2, 0) = Inr 2
   \<and> grid_km (0, 0) (0, 2) = Inr 2
   \<and> closest_weather_station grid_km 0 0 midsummer example_catalog
       = Inr (assign_distance
                (station_at ''C'' 2 0 (Some (2000, 1, 1, 0)) (Some (2030, 1, 1, 0))) 2)"
proof -
  let ?E = "query_dates midsummer example_catalog"
  let ?dist = "\<lambda>x :: timestamp option station. \<bar>LATITUDE x\<bar> + \<bar>LONGITUDE x\<bar>"
  have ne: "?E \<noteq> []"
    by (simp add: query_dates_example)
  have computed: "\<forall>x\<in>set ?E. grid_km (0, 0) (LATITUDE x, LONGITUDE x) = Inr (?dist x)"
    by (simp add: query_dates_example grid_km_def station_at_def)
  obtain i r where ir: "i < length ?E"
    "closest_weather_station grid_km 0 0 midsummer example_catalog = Inr r"
    "station.truncate r = ?E ! i"
    "DISTANCE_WEATHER_STATION_KM r = ?dist (?E ! i)"
    "\<forall>j<length ?E. ?dist (?E ! i) \<le> ?dist (?E ! j)"
    "\<forall>j<i. ?dist (?E ! i) < ?dist (?E ! j)"
    using closest_weather_station_nearest_eligible
      [where km = grid_km and lat = 0 and lon = 0 and dkm = ?dist, OF ne computed]
    by blast
  have "i = 0 \<or> i = 1 \<or> i = 2"
    using ir(1) by (auto simp: query_dates_example less_Suc_eq numeral_3_eq_3)
  moreover have "i \<noteq> 0"
  proof
    assume "i = 0"
    with ir(5) [rule_format, of 1] show False
      by (simp add: query_dates_example station_at_def)
  qed
  moreover have "i \<noteq> 2"
  proof
    assume "i = 2"
    with ir(6) [rule_format, of 1] show False
      by (simp add: query_dates_example station_at_def)
  qed
  ultimately have i1: "i = 1" by blast
  have "r = assign_distance (station.truncate r) (DISTANCE_WEATHER_STATION_KM r)"
    by (cases r) (simp add: assign_distance_def station.defs dstation.defs)
  also have "\<dots> = assign_distance
      (station_at ''C'' 2 0 (Some (2000, 1, 1, 0)) (Some (2030, 1, 1, 0))) 2"
    using ir(3,4) i1 by (simp add: query_dates_example station_at_def)
  finally show ?thesis
    using ne ir(2) by (simp add: grid_km_def)
qed

text \<open>
  The claim as stated fails for a query point of latitude 100: three stations of the
  example catalog are eligible, the distance call raises \<^verbatim>\<open>ValueError\<close> on the
  first of them, and the resolver returns no station.
\<close>

theorem closest_weather_station_invalid_latitude:
  "query_dates midsummer example_catalog \<noteq> []
   \<and> closest_weather_station grid_km 100 0 midsummer example_catalog = Inl ValueError"
  by (simp add: closest_weather_station_def query_dates_example apply_distance_def
      distances_of_def grid_km_def station_at_def)

text \<open>
  C2. A station of the catalog is kept by the filter if and only if its first date is
  strictly before the query date and its last date strictly after it (a missing date
  never is); a station whose first or last date is the query date is not kept; and the
  station the resolver returns is always one the filter kept.
\<close>

theorem query_dates_strict_range:
  assumes "x \<in> set ws"
  shows "(x \<in> set (query_dates date' ws) \<longleftrightarrow>
            (\<exists>a b. FIRST_DATE x = Some a \<and> LAST_DATE x = Some b
               \<and> a < Timestamp date' \<and> Timestamp date' < b))
     \<and> (FIRST_DATE x = Some (Timestamp date') \<longrightarrow> x \<notin> set (query_dates date' ws))
     \<and> (LAST_DATE x = Some (Timestamp date') \<longrightarrow> x \<notin> set (query_dates date' ws))
     \<and> (\<forall>r. closest_weather_station km lat lon date' ws = Inr r
            \<longrightarrow> station.truncate r \<in> set (query_dates date' ws))"
proof (intro conjI allI impI)
  show "x \<in> set (query_dates date' ws) \<longleftrightarrow>
            (\<exists>a b. FIRST_DATE x = Some a \<and> LAST_DATE x = Some b
               \<and> a < Timestamp date' \<and> Timestamp date' < b)"
    using assms by (simp add: query_dates_member)
next
  assume "FIRST_DATE x = Some (Timestamp date')"
  then show "x \<notin> set (query_dates date' ws)"
    by (simp add: query_dates_member)
next
  assume "LAST_DATE x = Some (Timestamp date')"
  then show "x \<notin> set (query_dates date' ws)"
    by (simp add: query_dates_member)
next
  fix r assume r: "closest_weather_station km lat lon date' ws = Inr r"
  have ne: "query_dates date' ws \<noteq> []"
    using r closest_weather_station_empty [of date' ws km lat lon] by auto
  obtain ds where ds: "distances_of km lat lon (query_dates date' ws) = Inr ds"
    using r closest_weather_station_raises [OF ne, of km lat lon]
    by (cases "distances_of km lat lon (query_dates date' ws)") auto
  obtain i where "i < length (query_dates date' ws)"
    "closest_weather_station km lat lon date' ws =
       Inr (assign_distance (query_dates date' ws ! i) (ds ! i))"
    using closest_weather_station_eq [OF ne ds] by blast
  then show "station.truncate r \<in> set (query_dates date' ws)"
    using r by (auto simp: truncate_assign_distance)
qed

text \<open>
  Stations \<open>B\<close> and \<open>E\<close> of the example catalog have the query date as their
  first and as their last date: they are in the catalog and not in the filtered
  catalog; the station the resolver returns, \<open>C\<close>, is in the filtered catalog.
\<close>

theorem query_dates_strict_range_witness:
  "station_at ''B'' 1 0 (Some (2020, 6, 21, 0)) (Some (2030, 1, 1, 0)) \<in> set example_catalog
   \<and> FIRST_DATE (station_at ''B'' 1 0 (Some (2020, 6, 21, 0)) (Some (2030, 1, 1, 0)))
       = Some (Timestamp midsummer)
   \<and> station_at ''B'' 1 0 (Some (2020, 6, 21, 0)) (Some (2030, 1, 1, 0))
       \<notin> set (query_dates midsummer example_catalog)
   \<and> station_at ''E'' 0 (1 / 2) (Some (2000, 1, 1, 0)) (Some (2020, 6, 21, 0))
       \<in> set example_catalog
   \<and> LAST_DATE (station_at ''E'' 0 (1 / 2) (Some (2000, 1, 1, 0)) (Some (2020, 6, 21, 0)))
       = Some (Timestamp midsummer)
   \<and> station_at ''E'' 0 (1 / 2) (Some (2000, 1, 1, 0)) (Some (2020, 6, 21, 0))
       \<notin> set (query_dates midsummer example_catalog)
   \<and> closest_weather_station grid_km 0 0 midsummer example_catalog
       = Inr (assign_distance
                (station_at ''C'' 2 0 (Some (2000, 1, 1, 0)) (Some (2030, 1, 1, 0))) 2)
   \<and> station.truncate (assign_distance
         (station_at ''C'' 2 0 (Some (2000, 1, 1, 0)) (Some (2030, 1, 1, 0))) 2)
       \<in> set (query_dates midsummer example_catalog)"
proof -
  have mB: "station_at ''B'' 1 0 (Some (2020, 6, 21, 0)) (Some (2030, 1, 1, 0))
      \<in> set example_catalog"
    by (simp add: example_catalog_def)
  have fB: "FIRST_DATE (station_at ''B'' 1 0 (Some (2020, 6, 21, 0)) (Some (2030, 1, 1, 0)))
       = Some (Timestamp midsummer)"
    by (simp add: station_at_def Timestamp_def midsummer_def)
  have mE: "station_at ''E'' 0 (1 / 2) (Some (2000, 1, 1, 0)) (Some (2020, 6, 21, 0))
      \<in> set example_catalog"
    by (simp add: example_catalog_def)
  have lE: "LAST_DATE (station_at ''E'' 0 (1 / 2) (Some (2000, 1, 1, 0)) (Some (2020, 6, 21, 0)))
       = Some (Timestamp midsummer)"
    by (simp add: station_at_def Timestamp_def midsummer_def)
  show ?thesis
    using query_dates_strict_range [OF mB, of midsummer grid_km 0 0]
      query_dates_strict_range [OF mE, of midsummer grid_km 0 0]
      mB fB mE lE closest_example
    by blast
qed

text \<open>
  C4, as the code has it. When no station's date range strictly contains the query
  date, the resolver fails with the \<^verbatim>\<open>ValueError\<close> that pandas raises on the frame
  without rows: not with an \<^verbatim>\<open>IndexError\<close>, and not with an error of its own for the
  condition.
\<close>

theorem closest_weather_station_empty_fails:
  assumes "query_dates date' ws = []"
  shows "closest_weather_station km lat lon date' ws = Inl ValueError
     \<and> closest_weather_station km lat lon date' ws \<noteq> Inl IndexError
     \<and> closest_weather_station km lat lon date' ws \<noteq> Inl NoEligibleStation"
  using closest_weather_station_empty [OF assms, of km lat lon] by simp

theorem closest_weather_station_empty_fails_witness:
  "query_dates midsummer
     [station_at ''B'' 1 0 (Some (2020, 6, 21, 0)) (Some (2030, 1, 1, 0))] = []
   \<and> closest_weather_station grid_km 0 0 midsummer
       [station_at ''B'' 1 0 (Some (2020, 6, 21, 0)) (Some (2030, 1, 1, 0))] = Inl ValueError"
proof -
  have e: "query_dates midsummer
     [station_at ''B'' 1 0 (Some (2020, 6, 21, 0)) (Some (2030, 1, 1, 0))] = []"
    by (simp add: query_dates_def station_at_def Timestamp_def midsummer_def)
  show ?thesis
    using closest_weather_station_empty_fails [OF e, of grid_km 0 0] e by simp
qed

text \<open>
  The claim as stated fails on a catalog whose only station has the query date as its
  first date: no station is eligible, and the call ends with \<^verbatim>\<open>ValueError\<close>, which
  is not the named error.
\<close>

theorem closest_weather_station_no_named_error:
  "query_dates midsummer
     [station_at ''B'' 1 0 (Some (2020, 6, 21, 0)) (Some (2030, 1, 1, 0))] = []
   \<and> closest_weather_station grid_km 0 0 midsummer
       [station_at ''B'' 1 0 (Some (2020, 6, 21, 0)) (Some (2030, 1, 1, 0))] = Inl ValueError
   \<and> closest_weather_station grid_km 0 0 midsummer
       [station_at ''B'' 1 0 (Some (2020, 6, 21, 0)) (Some (2030, 1, 1, 0))]
       \<noteq> Inl NoEligibleStation"
  by (simp add: closest_weather_station_def apply_distance_def assign_column_def
      query_dates_def station_at_def Timestamp_def midsummer_def)

text \<open>
  C10. Called on the address of a catalog, the resolver returns what it computes from
  that catalog and leaves every object that was in the store as it was, the catalog
  included, whether it returns a station or fails.
\<close>

theorem closest_weather_station_store_unchanged:
  assumes "deref h a = Some (Frame ws)"
  shows "\<exists>h'. closest_weather_station_store km lat lon date' a h
             = (closest_weather_station km lat lon date' ws, h')
     \<and> deref h' a = Some (Frame ws)
     \<and> (\<forall>b<length h. deref h' b = deref h b)"
proof -
  have pre: "\<And>xs. \<forall>b<length h. deref (h @ xs) b = deref h b"
    by (simp add: deref_def nth_append)
  have a: "a < length h"
    using assms by (auto simp: deref_def split: if_splits)
  have at: "\<And>xs. deref (h @ xs) a = Some (Frame ws)"
    using assms a pre by simp
  let ?E = "query_dates date' ws"
  have q: "query_store date' a h = (Inr (length h), h @ [Frame ?E])"
    using assms by (simp add: query_store_def new_def)
  have r: "reset_index_store (length h) (h @ [Frame ?E])
      = (Inr (Suc (length h)), h @ [Frame ?E, Frame ?E])"
    by (simp add: reset_index_store_def new_def deref_def)
  have d1: "deref (h @ [Frame ?E, Frame ?E]) (Suc (length h)) = Some (Frame ?E)"
    by (simp add: deref_def nth_append)
  show ?thesis
  proof (cases "apply_distance km lat lon ?E")
    case (Inl e)
    have ap: "apply_store km lat lon (Suc (length h)) (h @ [Frame ?E, Frame ?E])
        = (Inl e, h @ [Frame ?E, Frame ?E])"
      using Inl d1 by (simp add: apply_store_def)
    have pure: "closest_weather_station km lat lon date' ws = Inl e"
      using Inl by (simp add: closest_weather_station_def)
    have "closest_weather_station_store km lat lon date' a h
        = (closest_weather_station km lat lon date' ws, h @ [Frame ?E, Frame ?E])"
      by (simp add: closest_weather_station_store_def and_then_def q r ap pure)
    then show ?thesis
      using pre at by blast
  next
    case (Inr ob)
    have ap: "apply_store km lat lon (Suc (length h)) (h @ [Frame ?E, Frame ?E])
        = (Inr (Suc (Suc (length h))), h @ [Frame ?E, Frame ?E, ob])"
      using Inr d1 by (simp add: apply_store_def new_def)
    have d2: "deref (h @ [Frame ?E, Frame ?E, ob]) (Suc (length h)) = Some (Frame ?E)"
      "deref (h @ [Frame ?E, Frame ?E, ob]) (Suc (Suc (length h))) = Some ob"
      by (simp_all add: deref_def nth_append)
    show ?thesis
    proof (cases "assign_column ?E ob")
      case (Inl e)
      have as: "assign_store (Suc (length h)) (Suc (Suc (length h)))
            (h @ [Frame ?E, Frame ?E, ob])
          = (Inl e, h @ [Frame ?E, Frame ?E, ob])"
        using Inl d2 by (simp add: assign_store_def)
      have pure: "closest_weather_station km lat lon date' ws = Inl e"
        using Inl \<open>apply_distance km lat lon ?E = Inr ob\<close>
        by (simp add: closest_weather_station_def)
      have "closest_weather_station_store km lat lon date' a h
          = (closest_weather_station km lat lon date' ws, h @ [Frame ?E, Frame ?E, ob])"
        by (simp add: closest_weather_station_store_def and_then_def q r ap as pure)
      then show ?thesis
        using pre at by blast
    next
      case (Inr ws2)
      have as: "assign_store (Suc (length h)) (Suc (Suc (length h)))
            (h @ [Frame ?E, Frame ?E, ob])
          = (Inr (Suc (Suc (Suc (length h)))), h @ [Frame ?E, Frame ?E, ob, DistFrame ws2])"
        using Inr d2 by (simp add: assign_store_def new_def)
      have il: "iloc_idxmin_store (Suc (Suc (Suc (length h))))
            (h @ [Frame ?E, Frame ?E, ob, DistFrame ws2])
          = (closest_weather_station km lat lon date' ws,
             h @ [Frame ?E, Frame ?E, ob, DistFrame ws2])"
        using Inr \<open>apply_distance km lat lon ?E = Inr ob\<close>
        by (simp add: iloc_idxmin_store_def deref_def nth_append closest_weather_station_def
            split: sum.splits)
      have "closest_weather_station_store km lat lon date' a h
          = (closest_weather_station km lat lon date' ws,
             h @ [Frame ?E, Frame ?E, ob, DistFrame ws2])"
        by (simp add: closest_weather_station_store_def and_then_def q r ap as il)
      then show ?thesis
        using pre at by blast
    qed
  qed
qed

theorem closest_weather_station_store_unchanged_witness:
  "deref [Frame example_catalog] 0 = Some (Frame example_catalog)
   \<and> (\<exists>h'. closest_weather_station_store grid_km 0 0 midsummer 0 [Frame example_catalog]
             = (closest_weather_station grid_km 0 0 midsummer example_catalog, h')
        \<and> deref h' 0 = Some (Frame example_catalog))"
proof -
  have d: "deref [Frame example_catalog] 0 = Some (Frame example_catalog)"
    by (simp add: deref_def)
  show ?thesis
    using closest_weather_station_store_unchanged [OF d, of grid_km 0 0 midsummer] d by blast
qed

section \<open>Properties of \<^verbatim>\<open>weather_data\<close>\<close>

lemma first_seen_fold:
  "distinct acc \<Longrightarrow>
     distinct (fold (\<lambda>x seen. if x \<in> set seen then seen else seen @ [x]) xs acc)
     \<and> set (fold (\<lambda>x seen. if x \<in> set seen then seen else seen @ [x]) xs acc)
         = set acc \<union> set xs"
  by (induction xs arbitrary: acc) auto

lemma set_first_seen: "set (first_seen xs) = set xs"
  using first_seen_fold [of "[]" xs] by (simp add: first_seen_def)

lemma distinct_first_seen: "distinct (first_seen xs)"
  using first_seen_fold [of "[]" xs] by (simp add: first_seen_def)

lemma map_of_setitem: "map_of (setitem k v ps) = (map_of ps)(k \<mapsto> v)"
  by (induction ps) auto

lemma fst_set_setitem: "fst ` set (setitem k v ps) = insert k (fst ` set ps)"
  by (induction ps) auto

lemma cell_of_row:
  "c \<in> set cols \<Longrightarrow> cell_of (zip cols (map (cell_of d) cols)) c = cell_of d c"
  by (simp add: cell_of_def map_of_zip_map)

lemma select_columns_DataFrame:
  assumes "set labels \<subseteq> fst ` set d"
  shows "select_columns labels (DataFrame [d])
     = Inr \<lparr>columns = labels, cells = [map (cell_of d) labels]\<rparr>"
proof -
  let ?cols = "first_seen (map fst d)"
  have sub: "set labels \<subseteq> set ?cols"
    using assms by (simp add: set_first_seen)
  then have none: "filter (\<lambda>l. l \<notin> set ?cols) labels = []"
    by (auto simp: filter_empty_conv)
  have "map (cell_of (zip ?cols (map (cell_of d) ?cols))) labels = map (cell_of d) labels"
    using sub by (intro map_cong refl cell_of_row) auto
  then show ?thesis
    using none by (simp add: select_columns_def DataFrame_def Let_def)
qed

text \<open>
  C5. When the resolver has returned a station and the observation endpoint answers
  with no row, the result is a frame of one row and exactly the four columns
  \<^verbatim>\<open>STATION_NAME\<close>, \<^verbatim>\<open>STN_ID\<close>, \<^verbatim>\<open>CLIMATE_IDENTIFIER\<close>,
  \<^verbatim>\<open>DISTANCE_WEATHER_STATION_KM\<close>, in that order, holding the values of the resolved
  station.
\<close>

theorem weather_data_no_observation:
  assumes "closest_weather_station km lat lon date' ws = Inr closest_station"
    and "get_daily (daily_params closest_station date') = Inr []"
  shows "weather_data get_daily km lat lon date' ws
     = Inr \<lparr>columns = [''STATION_NAME'', ''STN_ID'', ''CLIMATE_IDENTIFIER'',
                        ''DISTANCE_WEATHER_STATION_KM''],
            cells = [[STATION_NAME closest_station, STN_ID closest_station,
                      CLIMATE_IDENTIFIER closest_station,
                      Num (DISTANCE_WEATHER_STATION_KM closest_station)]]\<rparr>"
proof -
  let ?labels = "[''STATION_NAME'', ''STN_ID'', ''CLIMATE_IDENTIFIER'',
                  ''DISTANCE_WEATHER_STATION_KM'']"
  have keys: "set ?labels \<subseteq> fst ` set (to_dict closest_station)"
    by (simp add: to_dict_def fst_set_setitem)
  have vals: "map (cell_of (to_dict closest_station)) ?labels
      = [STATION_NAME closest_station, STN_ID closest_station,
         CLIMATE_IDENTIFIER closest_station,
         Num (DISTANCE_WEATHER_STATION_KM closest_station)]"
    by (simp add: cell_of_def to_dict_def map_of_setitem)
  show ?thesis
    using assms select_columns_DataFrame [OF keys] vals
    by (simp add: weather_data_def)
qed

theorem weather_data_no_observation_witness:
  "weather_data no_observation grid_km 0 0 midsummer example_catalog
     = Inr \<lparr>columns = [''STATION_NAME'', ''STN_ID'', ''CLIMATE_IDENTIFIER'',
                        ''DISTANCE_WEATHER_STATION_KM''],
            cells = [[Str ''C'', Num 1, Str ''C'', Num 2]]\<rparr>"
proof -
  have n: "no_observation (daily_params (assign_distance
      (station_at ''C'' 2 0 (Some (2000, 1, 1, 0)) (Some (2030, 1, 1, 0))) 2) midsummer) = Inr []"
    by (simp add: no_observation_def)
  show ?thesis
    using weather_data_no_observation [where get_daily = no_observation, OF closest_example n]
    by (simp add: assign_distance_def station_at_def station.defs dstation.defs)
qed

lemma map_snd_filter_zip:
  "map snd (filter (\<lambda>cv. P (fst cv)) (zip xs (map f xs))) = map f (filter P xs)"
  by (induction xs) auto

lemma drop_columns_DataFrame:
  assumes "set labels \<subseteq> set (columns (DataFrame ds))"
  shows "drop_columns labels (DataFrame ds)
     = Inr \<lparr>columns = filter (\<lambda>c. c \<notin> set labels) (columns (DataFrame ds)),
            cells = map (\<lambda>d. map (cell_of d)
                          (filter (\<lambda>c. c \<notin> set labels) (columns (DataFrame ds)))) ds\<rparr>"
proof -
  have none: "filter (\<lambda>l. l \<notin> set (columns (DataFrame ds))) labels = []"
    using assms by (auto simp: filter_empty_conv)
  have c: "cells (DataFrame ds) = map (\<lambda>d. map (cell_of d) (columns (DataFrame ds))) ds"
    by (simp add: DataFrame_def Let_def)
  show ?thesis
    unfolding drop_columns_def none c
    by (simp add: map_snd_filter_zip [where P = "\<lambda>c. c \<notin> set labels"] comp_def)
qed

lemma one_observation_columns:
  "columns (DataFrame
     [[(''STATION_NAME'', Str ''C''), (''LOCAL_DATE'', Str ''2020-06-21 00:00:00''),
       (''LOCAL_DAY'', Num 21), (''LOCAL_MONTH'', Num 6), (''LOCAL_YEAR'', Num 2020),
       (''ID'', Str ''C.2020.6.21''), (''PROVINCE_CODE'', Str ''ON''),
       (''MEAN_TEMPERATURE'', Num 19)]])
   = [''STATION_NAME'', ''LOCAL_DATE'', ''LOCAL_DAY'', ''LOCAL_MONTH'', ''LOCAL_YEAR'',
      ''ID'', ''PROVINCE_CODE'', ''MEAN_TEMPERATURE'']"
  by (simp add: DataFrame_def first_seen_def)

text \<open>
  C6. When the resolver has returned a station and the observation endpoint answers
  with at least one row, and the rows have the six columns \<^verbatim>\<open>LOCAL_DATE\<close>,
  \<^verbatim>\<open>LOCAL_DAY\<close>, \<^verbatim>\<open>LOCAL_MONTH\<close>, \<^verbatim>\<open>LOCAL_YEAR\<close>, \<^verbatim>\<open>ID\<close>,
  \<^verbatim>\<open>PROVINCE_CODE\<close>, at least one other column, and no column \<^verbatim>\<open>STN_ID\<close> or
  \<^verbatim>\<open>DISTANCE_WEATHER_STATION_KM\<close> (the shape of the rows of the climate-daily
  collection), the result has the rows of the response without the six columns, the
  station id as column 1 and the distance as column 2, and the other columns in their
  order around them.
\<close>

theorem weather_data_observations:
  assumes "closest_weather_station km lat lon date' ws = Inr closest_station"
    and "get_daily (daily_params closest_station date') = Inr weather_list"
    and "weather_list \<noteq> []"
    and "set [''LOCAL_DATE'', ''LOCAL_DAY'', ''LOCAL_MONTH'', ''LOCAL_YEAR'', ''ID'',
              ''PROVINCE_CODE''] \<subseteq> set (columns (DataFrame weather_list))"
    and "filter (\<lambda>c. c \<notin> set [''LOCAL_DATE'', ''LOCAL_DAY'', ''LOCAL_MONTH'', ''LOCAL_YEAR'',
                                 ''ID'', ''PROVINCE_CODE''])
           (columns (DataFrame weather_list)) = c0 # others"
    and "''STN_ID'' \<notin> set (columns (DataFrame weather_list))"
    and "''DISTANCE_WEATHER_STATION_KM'' \<notin> set (columns (DataFrame weather_list))"
  shows "weather_data get_daily km lat lon date' ws
     = Inr \<lparr>columns = c0 # ''STN_ID'' # ''DISTANCE_WEATHER_STATION_KM'' # others,
            cells = map (\<lambda>d. cell_of d c0 # STN_ID closest_station
                          # Num (DISTANCE_WEATHER_STATION_KM closest_station)
                          # map (cell_of d) others) weather_list\<rparr>"
proof -
  let ?six = "[''LOCAL_DATE'', ''LOCAL_DAY'', ''LOCAL_MONTH'', ''LOCAL_YEAR'', ''ID'',
               ''PROVINCE_CODE'']"
  let ?dist = "Num (DISTANCE_WEATHER_STATION_KM closest_station)"
  let ?weather = "\<lparr>columns = c0 # others,
                   cells = map (\<lambda>d. map (cell_of d) (c0 # others)) weather_list\<rparr>"
  let ?weather1 = "\<lparr>columns = c0 # ''DISTANCE_WEATHER_STATION_KM'' # others,
                    cells = map (\<lambda>d. cell_of d c0 # ?dist # map (cell_of d) others)
                              weather_list\<rparr>"
  have dropped: "drop_columns ?six (DataFrame weather_list) = Inr ?weather"
    using drop_columns_DataFrame [OF assms(4)] assms(5) by simp
  have sub: "set (c0 # others) \<subseteq> set (columns (DataFrame weather_list))"
    using assms(5) by (metis filter_is_subset)
  have fresh: "''DISTANCE_WEATHER_STATION_KM'' \<notin> set (c0 # others)"
    "''STN_ID'' \<notin> set (c0 # others)"
    using sub assms(6,7) by blast+
  have ins1: "insert_column 1 ''DISTANCE_WEATHER_STATION_KM'' ?dist ?weather = Inr ?weather1"
    using fresh(1) by (simp add: insert_column_def comp_def)
  have ins2: "insert_column 1 ''STN_ID'' (STN_ID closest_station) ?weather1
      = Inr \<lparr>columns = c0 # ''STN_ID'' # ''DISTANCE_WEATHER_STATION_KM'' # others,
             cells = map (\<lambda>d. cell_of d c0 # STN_ID closest_station # ?dist
                           # map (cell_of d) others) weather_list\<rparr>"
    using fresh(2) by (simp add: insert_column_def comp_def)
  show ?thesis
    using assms(1,2,3) dropped ins1 ins2
    by (simp add: weather_data_def)
qed

theorem weather_data_observations_witness:
  "weather_data one_observation grid_km 0 0 midsummer example_catalog
     = Inr \<lparr>columns = [''STATION_NAME'', ''STN_ID'', ''DISTANCE_WEATHER_STATION_KM'',
                        ''MEAN_TEMPERATURE''],
            cells = [[Str ''C'', Num 1, Num 2, Num 19]]\<rparr>"
proof -
  let ?row = "[(''STATION_NAME'', Str ''C''), (''LOCAL_DATE'', Str ''2020-06-21 00:00:00''),
       (''LOCAL_DAY'', Num 21), (''LOCAL_MONTH'', Num 6), (''LOCAL_YEAR'', Num 2020),
       (''ID'', Str ''C.2020.6.21''), (''PROVINCE_CODE'', Str ''ON''),
       (''MEAN_TEMPERATURE'', Num 19)]"
  let ?cs = "assign_distance
      (station_at ''C'' 2 0 (Some (2000, 1, 1, 0)) (Some (2030, 1, 1, 0))) 2"
  have o: "one_observation (daily_params ?cs midsummer) = Inr [?row]"
    by (simp add: one_observation_def)
  have ne: "[?row] \<noteq> []"
    by simp
  have h4: "set [''LOCAL_DATE'', ''LOCAL_DAY'', ''LOCAL_MONTH'', ''LOCAL_YEAR'', ''ID'',
              ''PROVINCE_CODE''] \<subseteq> set (columns (DataFrame [?row]))"
    unfolding one_observation_columns by simp
  have h5: "filter (\<lambda>c. c \<notin> set [''LOCAL_DATE'', ''LOCAL_DAY'', ''LOCAL_MONTH'', ''LOCAL_YEAR'',
                                 ''ID'', ''PROVINCE_CODE''])
           (columns (DataFrame [?row])) = ''STATION_NAME'' # [''MEAN_TEMPERATURE'']"
    unfolding one_observation_columns by simp
  have h6: "''STN_ID'' \<notin> set (columns (DataFrame [?row]))"
    unfolding one_observation_columns by simp
  have h7: "''DISTANCE_WEATHER_STATION_KM'' \<notin> set (columns (DataFrame [?row]))"
    unfolding one_observation_columns by simp
  show ?thesis
    using weather_data_observations [where get_daily = one_observation,
        OF closest_example o ne h4 h5 h6 h7]
    by (simp add: assign_distance_def station_at_def station.defs dstation.defs cell_of_def)
qed

section \<open>Properties of \<^verbatim>\<open>scrape_weather_stations\<close>\<close>

lemma pages_of_append: "pages_of get (xs @ ys) = pages_of get xs @ pages_of get ys"
  by (simp add: pages_of_def)

lemma params_at_next:
  "(params_at province k)\<lparr>startindex := startindex (params_at province k) + 500\<rparr>
     = params_at province (Suc k)"
  by (simp add: params_at_def)

lemma page_loop_full_page:
  assumes "get params = Inr page" and "length page = 500"
  shows "page_loop get params acc reqs
     = page_loop get (params\<lparr>startindex := startindex params + 500\<rparr>) (acc @ page)
         (reqs @ [params])"
  using assms by (subst page_loop.simps) simp

lemma page_loop_short_page:
  assumes "get params = Inr page" and "length page \<noteq> 500"
  shows "page_loop get params acc reqs = Some (reqs @ [params], Inr (acc @ page))"
  using assms by (subst page_loop.simps) simp

lemma page_loop_failure:
  assumes "get params = Inl e"
  shows "page_loop get params acc reqs = Some (reqs @ [params], Inl e)"
  using assms by (subst page_loop.simps) simp

lemma page_loop_steps:
  assumes "\<forall>j<m. \<exists>page. get (params_at province j) = Inr page \<and> length page = 500"
  shows "page_loop get (params_at province 0) acc reqs
     = page_loop get (params_at province m)
         (acc @ pages_of get (map (params_at province) [0..<m]))
         (reqs @ map (params_at province) [0..<m])"
  using assms
proof (induction m)
  case 0
  show ?case by (simp add: pages_of_def)
next
  case (Suc m)
  obtain page where page: "get (params_at province m) = Inr page" "length page = 500"
    using Suc.prems by blast
  have "page_loop get (params_at province 0) acc reqs
     = page_loop get (params_at province m)
         (acc @ pages_of get (map (params_at province) [0..<m]))
         (reqs @ map (params_at province) [0..<m])"
    using Suc by simp
  also have "\<dots> = page_loop get (params_at province (Suc m))
         ((acc @ pages_of get (map (params_at province) [0..<m])) @ page)
         ((reqs @ map (params_at province) [0..<m]) @ [params_at province m])"
    using page_loop_full_page [where get = get and params = "params_at province m", OF page]
    by (simp add: params_at_next)
  also have "(acc @ pages_of get (map (params_at province) [0..<m])) @ page
       = acc @ pages_of get (map (params_at province) [0..<Suc m])"
    using page(1) by (simp add: pages_of_def)
  also have "(reqs @ map (params_at province) [0..<m]) @ [params_at province m]
       = reqs @ map (params_at province) [0..<Suc m]"
    by simp
  finally show ?case .
qed

lemma page_loop_aborts:
  assumes "\<forall>j<m. \<exists>page. get (params_at province j) = Inr page \<and> length page = 500"
    and "get (params_at province m) = Inl e"
  shows "page_loop get (params_at province 0) acc reqs
     = Some (reqs @ map (params_at province) [0..<Suc m], Inl e)"
  using page_loop_steps [OF assms(1)]
    page_loop_failure [where get = get and params = "params_at province m", OF assms(2)]
  by simp

lemma page_loop_ends:
  assumes "\<forall>j<m. \<exists>page. get (params_at province j) = Inr page \<and> length page = 500"
    and "get (params_at province m) = Inr page" and "length page \<noteq> 500"
  shows "page_loop get (params_at province 0) acc reqs
     = Some (reqs @ map (params_at province) [0..<Suc m],
             Inr (acc @ pages_of get (map (params_at province) [0..<Suc m])))"
  using page_loop_steps [OF assms(1)]
    page_loop_short_page [where get = get and params = "params_at province m", OF assms(2,3)]
    assms(2)
  by (simp add: pages_of_def)

lemma province_loop_append:
  "province_loop get (xs @ ys) acc reqs
     = (case province_loop get xs acc reqs of
          None \<Rightarrow> None
        | Some (reqs1, Inl e) \<Rightarrow> Some (reqs1, Inl e)
        | Some (reqs1, Inr acc1) \<Rightarrow> province_loop get ys acc1 reqs1)"
  by (induction xs arbitrary: acc reqs) (auto split: option.splits sum.splits)

lemma first_params: "\<lparr>f_format = ''json'', ENG_PROV_NAME = province, startindex = 1\<rparr> = params_at province 0"
  by (simp add: params_at_def)

lemma synthetic_pages:
  "pages_of (synthetic_endpoint recs) (map (params_at province) [0..<k]) = take (500 * k) recs"
proof (induction k)
  case 0
  show ?case by (simp add: pages_of_def)
next
  case (Suc k)
  have "nat (startindex (params_at province k) - 1) = 500 * k"
    by (simp add: params_at_def)
  then have "pages_of (synthetic_endpoint recs) [params_at province k]
      = take 500 (drop (500 * k) recs)"
    by (simp add: pages_of_def synthetic_endpoint_def)
  moreover have "take (500 * k + 500) recs
      = take (500 * k) recs @ take 500 (drop (500 * k) recs)"
    by (rule take_add)
  moreover have "500 * Suc k = 500 * k + 500"
    by simp
  moreover have "map (params_at province) [0..<Suc k]
      = map (params_at province) [0..<k] @ [params_at province k]"
    by simp
  ultimately show ?case
    using Suc by (simp only: pages_of_append)
qed

lemma synthetic_run:
  "page_loop (synthetic_endpoint recs) (params_at province 0) acc reqs
     = Some (reqs @ map (params_at province) [0..<length recs div 500 + 1], Inr (acc @ recs))"
proof -
  define m where "m = length recs div 500"
  define r where "r = length recs mod 500"
  have n: "length recs = 500 * m + r"
    by (simp add: m_def r_def)
  have r: "r < 500"
    by (simp add: r_def)
  have idx: "\<And>j. nat (startindex (params_at province j) - 1) = 500 * j"
    by (simp add: params_at_def)
  have full: "\<forall>j<m. \<exists>page. synthetic_endpoint recs (params_at province j) = Inr page
      \<and> length page = 500"
  proof (intro allI impI)
    fix j assume "j < m"
    then have "500 * j + 500 \<le> 500 * m"
      by simp
    then have "500 * j + 500 \<le> length recs"
      using n by linarith
    then show "\<exists>page. synthetic_endpoint recs (params_at province j) = Inr page
      \<and> length page = 500"
      by (simp add: synthetic_endpoint_def idx)
  qed
  have last: "synthetic_endpoint recs (params_at province m)
      = Inr (take 500 (drop (500 * m) recs))"
    by (simp add: synthetic_endpoint_def idx)
  have short: "length (take 500 (drop (500 * m) recs)) \<noteq> 500"
    using n r by simp
  have "length recs \<le> 500 * Suc m"
    using n r by simp
  then have all: "pages_of (synthetic_endpoint recs) (map (params_at province) [0..<Suc m]) = recs"
    by (simp only: synthetic_pages take_all)
  have "page_loop (synthetic_endpoint recs) (params_at province 0) acc reqs
     = Some (reqs @ map (params_at province) [0..<Suc m],
             Inr (acc @ pages_of (synthetic_endpoint recs)
                          (map (params_at province) [0..<Suc m])))"
    by (rule page_loop_ends [OF full last short])
  then show ?thesis
    unfolding all by (simp add: m_def)
qed

lemma scrape_synthetic:
  "scrape_weather_stations (synthetic_endpoint recs) to_datetime (One province)
     = Some (map (params_at province) [0..<length recs div 500 + 1],
             fix_column_types to_datetime recs)"
  using synthetic_run [of recs province "[]" "[]"]
  by (simp add: scrape_weather_stations_def first_params)

lemma page_loop_trace:
  assumes "page_loop get params acc reqs = Some y"
  shows "\<exists>new. fst y = reqs @ new \<and> new \<noteq> []
     \<and> (case snd y of
           Inl e \<Rightarrow> get (last new) = Inl e
         | Inr all_rows \<Rightarrow> (\<forall>p\<in>set new. \<exists>page. get p = Inr page)
             \<and> all_rows = acc @ pages_of get new)"
  using assms
proof (induction rule: page_loop.raw_induct [rotated 1, consumes 1])
  case (1 f get params acc reqs y)
  show ?case
  proof (cases "get params")
    case (Inl e)
    with 1(2) have "y = (reqs @ [params], Inl e)" by simp
    then show ?thesis
      using Inl by (intro exI [of _ "[params]"]) simp
  next
    case (Inr page)
    show ?thesis
    proof (cases "length page = 500")
      case True
      with 1(2) Inr
      have "f get (params\<lparr>startindex := startindex params + 500\<rparr>) (acc @ page)
              (reqs @ [params]) = Some y"
        by simp
      from 1(1) [OF this] obtain new where new: "fst y = (reqs @ [params]) @ new" "new \<noteq> []"
        "case snd y of
           Inl e \<Rightarrow> get (last new) = Inl e
         | Inr all_rows \<Rightarrow> (\<forall>p\<in>set new. \<exists>page. get p = Inr page)
             \<and> all_rows = (acc @ page) @ pages_of get new"
        by blast
      show ?thesis
        using new Inr
        by (intro exI [of _ "params # new"]) (auto simp: pages_of_def split: sum.splits)
    next
      case False
      with 1(2) Inr have "y = (reqs @ [params], Inr (acc @ page))" by simp
      then show ?thesis
        using Inr by (intro exI [of _ "[params]"]) (simp add: pages_of_def)
    qed
  qed
qed

lemma province_loop_trace:
  assumes "province_loop get provs acc reqs = Some y"
  shows "\<exists>new. fst y = reqs @ new
     \<and> (case snd y of
           Inl e \<Rightarrow> new \<noteq> [] \<and> get (last new) = Inl e
         | Inr all_rows \<Rightarrow> (\<forall>p\<in>set new. \<exists>page. get p = Inr page)
             \<and> all_rows = acc @ pages_of get new)"
  using assms
proof (induction provs arbitrary: acc reqs)
  case Nil
  then show ?case by (auto simp: pages_of_def)
next
  case (Cons province rest)
  let ?p = "\<lparr>f_format = ''json'', ENG_PROV_NAME = province, startindex = 1\<rparr>"
  from Cons.prems obtain y1 where y1: "page_loop get ?p acc reqs = Some y1"
    by (auto split: option.splits)
  from page_loop_trace [OF y1] obtain new1 where n1: "fst y1 = reqs @ new1" "new1 \<noteq> []"
    "case snd y1 of
       Inl e \<Rightarrow> get (last new1) = Inl e
     | Inr all_rows \<Rightarrow> (\<forall>p\<in>set new1. \<exists>page. get p = Inr page)
         \<and> all_rows = acc @ pages_of get new1"
    by blast
  show ?case
  proof (cases "snd y1")
    case (Inl e)
    then have "y = y1"
      using Cons.prems y1 by (cases y1) auto
    then show ?thesis
      using n1 Inl by (intro exI [of _ new1]) auto
  next
    case (Inr all1)
    then have "province_loop get rest all1 (fst y1) = Some y"
      using Cons.prems y1 by (cases y1) auto
    from Cons.IH [OF this] obtain new2 where n2: "fst y = fst y1 @ new2"
      "case snd y of
         Inl e \<Rightarrow> new2 \<noteq> [] \<and> get (last new2) = Inl e
       | Inr all_rows \<Rightarrow> (\<forall>p\<in>set new2. \<exists>page. get p = Inr page)
           \<and> all_rows = all1 @ pages_of get new2"
      by blast
    show ?thesis
      using n1 n2 Inr
      by (intro exI [of _ "new1 @ new2"]) (auto simp: pages_of_append split: sum.splits)
  qed
qed

lemma scrape_trace:
  assumes "scrape_weather_stations get to_datetime provinces = Some (reqs, res)"
  shows "case res of
           Inl e \<Rightarrow> (\<exists>p\<in>set reqs. \<exists>e'. get p = Inl e') \<longrightarrow> get (last reqs) = Inl e
         | Inr cat \<Rightarrow> (\<forall>p\<in>set reqs. \<exists>page. get p = Inr page)
             \<and> pages_of get reqs \<noteq> []
             \<and> cat = map (fix_row to_datetime) (pages_of get reqs)"
proof -
  define provs where "provs = (case provinces of One s \<Rightarrow> [s] | Several l \<Rightarrow> l)"
  obtain y where y: "province_loop get provs [] [] = Some y"
    using assms by (auto simp: scrape_weather_stations_def provs_def split: option.splits)
  from province_loop_trace [OF y] obtain new where n0: "fst y = [] @ new"
    and n1: "case snd y of
       Inl e \<Rightarrow> new \<noteq> [] \<and> get (last new) = Inl e
     | Inr all_rows \<Rightarrow> (\<forall>p\<in>set new. \<exists>page. get p = Inr page)
         \<and> all_rows = [] @ pages_of get new"
    by blast
  have new: "fst y = new"
    "case snd y of
       Inl e \<Rightarrow> new \<noteq> [] \<and> get (last new) = Inl e
     | Inr all_rows \<Rightarrow> (\<forall>p\<in>set new. \<exists>page. get p = Inr page)
         \<and> all_rows = pages_of get new"
    using n0 n1 by (cases "snd y"; simp)+
  show ?thesis
  proof (cases "snd y")
    case (Inl e)
    then have "reqs = new" "res = Inl e"
      using assms y new(1)
      by (cases y; auto simp: scrape_weather_stations_def provs_def [symmetric])+
    then show ?thesis
      using new(2) Inl by simp
  next
    case (Inr raw)
    then have r: "reqs = new" "res = fix_column_types to_datetime raw"
      using assms y new(1)
      by (cases y; auto simp: scrape_weather_stations_def provs_def [symmetric])+
    have raw: "raw = pages_of get new" "\<forall>p\<in>set new. \<exists>page. get p = Inr page"
      using new(2) Inr by simp_all
    show ?thesis
    proof (cases "raw = []")
      case True
      then show ?thesis
        using r raw by (auto simp: fix_column_types_def)
    next
      case False
      then show ?thesis
        using r raw by (simp add: fix_column_types_def)
    qed
  qed
qed

text \<open>
  C9. A province given as a string and the same province given as a list of one
  string issue the same requests and give the same result (or both run forever).
\<close>

theorem scrape_weather_stations_single_string:
  "scrape_weather_stations get to_datetime (One province)
     = scrape_weather_stations get to_datetime (Several [province])"
  by (simp add: scrape_weather_stations_def)

text \<open>
  C3, as the code has it. Against an endpoint that holds \<open>n\<close> records and serves them
  in pages of 500, the fetch of one province ends after exactly \<open>n div 500 + 1\<close>
  requests, with the start indices 1, 501, 1001, ...: the loop stops at the first page
  that is not full, so after a last full page one more request is made. When there is
  at least one record, the result is the catalog of all \<open>n\<close> records, in the order
  in which the pages were requested.
\<close>

theorem scrape_weather_stations_page_requests:
  "\<exists>reqs res.
     scrape_weather_stations (synthetic_endpoint recs) to_datetime (One province)
       = Some (reqs, res)
     \<and> length reqs = length recs div 500 + 1
     \<and> reqs = map (params_at province) [0..<length recs div 500 + 1]
     \<and> (recs \<noteq> [] \<longrightarrow> res = Inr (map (fix_row to_datetime) recs))"
  by (simp add: scrape_synthetic fix_column_types_def)

text \<open>With 500 records: two requests, and all 500 records in the catalog.\<close>

theorem scrape_weather_stations_page_requests_witness:
  "replicate 500 raw_example \<noteq> []
   \<and> scrape_weather_stations (synthetic_endpoint (replicate 500 raw_example)) iso_date
       (One ''Ontario'')
     = Some ([params_at ''Ontario'' 0, params_at ''Ontario'' 1],
             Inr (replicate 500 (fix_row iso_date raw_example)))"
proof -
  have ne: "replicate 500 raw_example \<noteq> []"
    by simp
  have two: "[0..<length (replicate 500 raw_example) div 500 + 1] = [0, 1]"
    by (simp add: upt_rec)
  show ?thesis
    using scrape_weather_stations_page_requests
      [of "replicate 500 raw_example" iso_date "''Ontario''"] ne
    unfolding two by auto
qed

text \<open>
  The claim as stated fails for 500 records: the fetch issues two requests, and the
  ceiling of 500 / 500 is one.
\<close>

theorem scrape_weather_stations_extra_request:
  "map_option (length \<circ> fst)
     (scrape_weather_stations (synthetic_endpoint (replicate 500 raw_example)) iso_date
        (One ''Ontario'')) = Some 2
   \<and> nat \<lceil>(500 :: real) / 500\<rceil> = 1"
  by (simp add: scrape_synthetic)

text \<open>
  C7. When the fetch returns a catalog, its rows are the records of the pages of all
  requests, in order, and in every row the longitude and the latitude are the raw
  values divided by 10,000,000, the four date columns are the parsed raw dates, and the
  other columns are as fetched.
\<close>

theorem scrape_weather_stations_column_types:
  assumes "scrape_weather_stations get to_datetime provinces = Some (reqs, Inr cat)"
  shows "length cat = length (pages_of get reqs)
     \<and> (\<forall>i<length cat.
           LONGITUDE (cat ! i) = LONGITUDE (pages_of get reqs ! i) / 10000000
         \<and> LATITUDE (cat ! i) = LATITUDE (pages_of get reqs ! i) / 10000000
         \<and> FIRST_DATE (cat ! i) = to_datetime (FIRST_DATE (pages_of get reqs ! i))
         \<and> LAST_DATE (cat ! i) = to_datetime (LAST_DATE (pages_of get reqs ! i))
         \<and> DLY_FIRST_DATE (cat ! i) = to_datetime (DLY_FIRST_DATE (pages_of get reqs ! i))
         \<and> DLY_LAST_DATE (cat ! i) = to_datetime (DLY_LAST_DATE (pages_of get reqs ! i))
         \<and> STN_ID (cat ! i) = STN_ID (pages_of get reqs ! i)
         \<and> STATION_NAME (cat ! i) = STATION_NAME (pages_of get reqs ! i)
         \<and> CLIMATE_IDENTIFIER (cat ! i) = CLIMATE_IDENTIFIER (pages_of get reqs ! i)
         \<and> OTHER_PROPERTIES (cat ! i) = OTHER_PROPERTIES (pages_of get reqs ! i))"
proof -
  have cat: "cat = map (fix_row to_datetime) (pages_of get reqs)"
    using scrape_trace [OF assms] by simp
  show ?thesis
    unfolding cat by (simp add: fix_row_def lit_10e6_def)
qed

text \<open>
  One raw record with latitude 485200000 and longitude -1234500000: the catalog has
  48.52 and -123.45 degrees.
\<close>

theorem scrape_weather_stations_column_types_witness:
  "scrape_weather_stations (synthetic_endpoint [raw_example]) iso_date (One ''Ontario'')
     = Some ([params_at ''Ontario'' 0], Inr [fix_row iso_date raw_example])
   \<and> LATITUDE (fix_row iso_date raw_example) = 48.52
   \<and> LONGITUDE (fix_row iso_date raw_example) = - 123.45
   \<and> FIRST_DATE (fix_row iso_date raw_example) = Some (2000, 1, 1, 0)"
proof -
  have h: "scrape_weather_stations (synthetic_endpoint [raw_example]) iso_date (One ''Ontario'')
     = Some ([params_at ''Ontario'' 0], Inr [fix_row iso_date raw_example])"
    by (simp add: scrape_synthetic fix_column_types_def)
  have p: "pages_of (synthetic_endpoint [raw_example]) [params_at ''Ontario'' 0] = [raw_example]"
    by (simp add: pages_of_def synthetic_endpoint_def params_at_def)
  show ?thesis
    using scrape_weather_stations_column_types [OF h] h
    unfolding p by (simp add: raw_example_def station_at_def iso_date_def)
qed

text \<open>
  C8. If the provinces before some province are fetched without failure, the first
  \<open>m\<close> pages of that province are full, and its next request fails (in transport or
  in decoding), then the fetch ends there with that error, whatever provinces would
  follow: it returns no catalog. And in general, when any request of a finished fetch
  failed, the result is the error of the last request and not a catalog.
\<close>

theorem scrape_weather_stations_aborts:
  assumes "province_loop get before [] [] = Some (reqs0, Inr rows0)"
    and "\<forall>j<m. \<exists>page. get (params_at province j) = Inr page \<and> length page = 500"
    and "get (params_at province m) = Inl e"
  shows "scrape_weather_stations get to_datetime (Several (before @ province # after))
       = Some (reqs0 @ map (params_at province) [0..<Suc m], Inl e)
     \<and> (\<forall>provinces reqs res.
           scrape_weather_stations get to_datetime provinces = Some (reqs, res)
           \<longrightarrow> (\<exists>p\<in>set reqs. \<exists>e'. get p = Inl e')
           \<longrightarrow> (\<exists>e'. res = Inl e' \<and> get (last reqs) = Inl e'))"
proof (intro conjI allI impI)
  have "province_loop get (before @ province # after) [] []
      = province_loop get (province # after) rows0 reqs0"
    using assms(1) by (simp add: province_loop_append)
  also have "\<dots> = Some (reqs0 @ map (params_at province) [0..<Suc m], Inl e)"
    using page_loop_aborts [OF assms(2,3), of rows0 reqs0] by (simp add: first_params)
  finally show "scrape_weather_stations get to_datetime (Several (before @ province # after))
       = Some (reqs0 @ map (params_at province) [0..<Suc m], Inl e)"
    by (simp add: scrape_weather_stations_def)
next
  fix provinces reqs res
  assume run: "scrape_weather_stations get to_datetime provinces = Some (reqs, res)"
    and failed: "\<exists>p\<in>set reqs. \<exists>e'. get p = Inl e'"
  show "\<exists>e'. res = Inl e' \<and> get (last reqs) = Inl e'"
  proof (cases res)
    case (Inl e')
    then show ?thesis
      using scrape_trace [OF run] failed by simp
  next
    case (Inr cat)
    then have "\<forall>p\<in>set reqs. \<exists>page. get p = Inr page"
      using scrape_trace [OF run] by simp
    then show ?thesis
      using failed by force
  qed
qed

text \<open>
  An endpoint whose first page is full and whose second request fails: the fetch of
  two provinces ends after two requests with the transport error.
\<close>

theorem scrape_weather_stations_aborts_witness:
  "province_loop failing_endpoint [] [] [] = Some ([], Inr [])
   \<and> failing_endpoint (params_at ''Ontario'' 0) = Inr (replicate 500 raw_example)
   \<and> failing_endpoint (params_at ''Ontario'' 1) = Inl TransportError
   \<and> scrape_weather_stations failing_endpoint iso_date (Several [''Ontario'', ''Quebec''])
       = Some ([params_at ''Ontario'' 0, params_at ''Ontario'' 1], Inl TransportError)
   \<and> params_at ''Ontario'' 1 \<in> set [params_at ''Ontario'' 0, params_at ''Ontario'' 1]"
proof -
  have h1: "province_loop failing_endpoint [] [] [] = Some ([], Inr [])"
    by simp
  have p0: "failing_endpoint (params_at ''Ontario'' 0) = Inr (replicate 500 raw_example)"
    by (simp add: failing_endpoint_def params_at_def)
  have h2: "\<forall>j<1. \<exists>page. failing_endpoint (params_at ''Ontario'' j) = Inr page
      \<and> length page = 500"
    using p0 by simp
  have h3: "failing_endpoint (params_at ''Ontario'' 1) = Inl TransportError"
    by (simp add: failing_endpoint_def params_at_def)
  have two: "[0..<Suc 1] = [0, 1]"
    by (simp add: upt_rec)
  show ?thesis
    using scrape_weather_stations_aborts [OF h1 h2 h3, of iso_date "[''Quebec'']"] h1 p0 h3
    unfolding two by simp
qed

end
